theory Spec2Isabelle
  imports Complex_Main "HOL-Library.Word" "HOL-Library.Sublist" "HOL-Library.AList"
begin

unbundle bit_operations_syntax

section \<open>Python values and errors\<close>

text \<open>
  The sources are Python 2 (\<open>print\<close> statements, \<open>xrange\<close>, the \<open>.next()\<close> method of
  generator objects, \<open>filter\<close> returning a list). Python integers are unbounded and are
  modelled by \<open>int\<close>. Exceptions are values of the type \<open>py_error\<close>.
\<close>

datatype py_error = IndexError | ValueError | KeyError | AttributeError | ZeroDivisionError
  | ErrorReply | PathError | NoRouters

text \<open>
  The subscript \<open>xs[i]\<close> of a list: indices from \<open>-len(xs)\<close> up to \<open>-1\<close> address
  the list from its end.
\<close>

definition py_get :: "'a list \<Rightarrow> int \<Rightarrow> py_error + 'a" where
  "py_get xs i =
     (if 0 \<le> i \<and> i < int (length xs) then Inr (xs ! nat i)
      else if i < 0 \<and> - int (length xs) \<le> i then Inr (xs ! nat (int (length xs) + i))
      else Inl IndexError)"

text \<open>\<open>xs.remove(x)\<close> deletes the first element equal to \<open>x\<close> or raises ValueError.\<close>

definition py_remove :: "'a list \<Rightarrow> 'a \<Rightarrow> py_error + 'a list" where
  "py_remove xs x = (if x \<in> set xs then Inr (remove1 x xs) else Inl ValueError)"

text \<open>
  \<open>plog(level, msg)\<close> of TorUtil.py prints a line; a call is recorded as a pair.
\<close>

type_synonym log_entry = "string \<times> string"

section \<open>TorCtl.py: exit policy lines and routers\<close>

text \<open>
  An IPv4 address given as a dotted-quad string is modelled by the 32 bit word it
  denotes; \<open>struct.unpack(">I", socket.inet_aton(s))[0]\<close> reads it as an unsigned
  Python integer.
\<close>

type_synonym ipaddr = "32 word"

definition dotted :: "nat \<Rightarrow> nat \<Rightarrow> nat \<Rightarrow> nat \<Rightarrow> ipaddr" where
  "dotted a b c d = word_of_nat (a * 2 ^ 24 + b * 2 ^ 16 + c * 2 ^ 8 + d)"

definition inet_aton_I :: "ipaddr \<Rightarrow> int" where
  "inet_aton_I a = uint a"

record ExitPolicyLine =
  line_match :: bool
  line_ip :: int
  line_netmask :: int
  line_port_low :: int
  line_port_high :: int

text \<open>
  The arguments of the constructor after the regular expressions of
  \<open>Router.build_from_desc\<close> have split the descriptor line: the address part is
  \<open>*\<close>, a plain address, \<open>address/dotted mask\<close> or \<open>address/bits\<close>; the port part is
  \<open>*\<close> or a low port with an optional high port.
\<close>

datatype ip_mask = IpStar | IpPlain ipaddr | IpSlashDotted ipaddr ipaddr | IpSlashBits ipaddr nat

datatype port_spec = PortStar | PortRange int "int option"

definition ExitPolicyLine_init :: "bool \<Rightarrow> ip_mask \<Rightarrow> port_spec \<Rightarrow> ExitPolicyLine" where
  "ExitPolicyLine_init m ipm ports =
     (let (ip0, netmask) =
            (case ipm of
               IpStar \<Rightarrow> (0, 0)
             | IpPlain a \<Rightarrow> (inet_aton_I a, 4294967295)
             | IpSlashDotted a msk \<Rightarrow> (inet_aton_I a, inet_aton_I msk)
             | IpSlashBits a bits \<Rightarrow> (inet_aton_I a, NOT (2 ^ (32 - bits) - 1)));
          (lo, hi) =
            (case ports of
               PortStar \<Rightarrow> (0, 65535)
             | PortRange l None \<Rightarrow> (l, l)
             | PortRange l (Some h) \<Rightarrow> (l, h))
      in \<lparr> line_match = m, line_ip = ip0 AND netmask, line_netmask = netmask,
           line_port_low = lo, line_port_high = hi \<rparr>)"

text \<open>\<open>ExitPolicyLine.check\<close> returns \<open>self.match\<close> or the integer \<open>-1\<close>.\<close>

datatype check_ret = Ret bool | MinusOne

definition check :: "ExitPolicyLine \<Rightarrow> ipaddr \<Rightarrow> int \<Rightarrow> check_ret" where
  "check l addr port =
     (let ip' = inet_aton_I addr in
      if (ip' AND line_netmask l) = line_ip l then
        (if line_port_low l \<le> port \<and> port \<le> line_port_high l then Ret (line_match l)
         else MinusOne)
      else MinusOne)"

text \<open>
  \<open>RouterVersion.version\<close> is the encoded integer, or the unparsed falsy argument
  (\<open>None\<close>) when no version string was given.
\<close>

type_synonym RouterVersion = "int option"

text \<open>
  The fields of \<open>Router\<close>. \<open>country_code\<close>, \<open>continent\<close> and \<open>cont_group\<close> are the
  attributes the GeoIP restrictions of PathSupport.py read from the routers they are
  given.
\<close>

record Router =
  idhex :: string
  nickname :: string
  bw :: int
  down :: bool
  exitpolicy :: "ExitPolicyLine list"
  flags :: "string list"
  ip :: int
  version :: RouterVersion
  os :: string
  list_rank :: int
  uptime :: int
  country_code :: "string option"
  continent :: "string option"
  cont_group :: "string option"

text \<open>
  \<open>Router.will_exit_to\<close>: the loop over \<open>self.exitpolicy\<close> returns at the first line
  whose check is not \<open>-1\<close>; after the loop it logs a warning and returns \<open>False\<close>.
  The result is paired with the log lines written.
\<close>

fun will_exit_to_loop :: "ExitPolicyLine list \<Rightarrow> ipaddr \<Rightarrow> int \<Rightarrow> bool option" where
  "will_exit_to_loop [] addr port = None"
| "will_exit_to_loop (l # ls) addr port =
     (case check l addr port of
        Ret b \<Rightarrow> Some b
      | MinusOne \<Rightarrow> will_exit_to_loop ls addr port)"

definition will_exit_to_log :: "Router \<Rightarrow> ipaddr \<Rightarrow> int \<Rightarrow> bool \<times> log_entry list" where
  "will_exit_to_log r addr port =
     (case will_exit_to_loop (exitpolicy r) addr port of
        Some ret \<Rightarrow> (ret, [])
      | None \<Rightarrow> (False, [(''WARN'', ''No matching exit line for '' @ nickname r)]))"

definition will_exit_to :: "Router \<Rightarrow> ipaddr \<Rightarrow> int \<Rightarrow> bool" where
  "will_exit_to r addr port = fst (will_exit_to_log r addr port)"

text \<open>The policy \<open>[reject 1.2.3.0/24:*, accept *:80, reject *:*]\<close>.\<close>

definition policy_example :: "ExitPolicyLine list" where
  "policy_example =
     [ExitPolicyLine_init False (IpSlashBits (dotted 1 2 3 0) 24) PortStar,
      ExitPolicyLine_init True IpStar (PortRange 80 None),
      ExitPolicyLine_init False IpStar PortStar]"

definition router0 :: Router where
  "router0 = \<lparr> idhex = ''0000'', nickname = ''r0'', bw = 0, down = False, exitpolicy = [],
     flags = [], ip = 0, version = None, os = '''', list_rank = 0, uptime = 0,
     country_code = None, continent = None, cont_group = None \<rparr>"

section \<open>PathSupport.py: restrictions\<close>

text \<open>
  A Python function may return \<open>True\<close>, \<open>False\<close> or, by falling off its end, \<open>None\<close>;
  \<open>all\<close>, \<open>any\<close>, \<open>not\<close> and \<open>if\<close> read the value by its truth.
\<close>

datatype py_val = PyBool bool | PyNone

fun truthy :: "py_val \<Rightarrow> bool" where
  "truthy (PyBool b) = b"
| "truthy PyNone = False"

text \<open>
  A regular expression is used through \<open>re.search(pattern, string)\<close> only, read for its
  truth: it is modelled by the predicate on strings it decides.
\<close>

type_synonym regex = "string \<Rightarrow> bool"

text \<open>
  One constructor per class. \<open>NodeRestriction\<close> and \<open>MetaNodeRestriction\<close> are the
  interface classes themselves, whose \<open>r_is_ok\<close> returns \<open>True\<close>.
\<close>

datatype NodeRestriction =
    NodeRestrictionI
  | PercentileRestriction int int "Router list"
  | OSRestriction "regex list" "regex list"
  | ConserveExitsRestriction
  | FlagsRestriction "string list" "string list"
  | NickRestriction string
  | IdHexRestriction string
  | MinBWRestriction int
  | VersionIncludeRestriction "RouterVersion list"
  | VersionExcludeRestriction "RouterVersion list"
  | VersionRangeRestriction RouterVersion "RouterVersion option"
  | ExitPolicyRestriction ipaddr int
  | MetaNodeRestrictionI
  | OrNodeRestriction "NodeRestriction list"
  | NotNodeRestriction NodeRestriction
  | AtLeastNNodeRestriction "NodeRestriction list" int
  | CountryCodeRestriction
  | CountryRestriction "string option"
  | ExcludeCountriesRestriction "string option list"

text \<open>
  Python 2 orders \<open>None\<close> below every integer; \<open>RouterVersion.__ge__\<close> and \<open>__le__\<close>
  compare the \<open>version\<close> attributes.
\<close>

fun version_le :: "RouterVersion \<Rightarrow> RouterVersion \<Rightarrow> bool" where
  "version_le None _ = True"
| "version_le (Some a) None = False"
| "version_le (Some a) (Some b) = (a \<le> b)"

text \<open>\<open>OSRestriction.r_is_ok\<close>: two loops, two tests, and no return after them.\<close>

definition OSRestriction_r_is_ok :: "regex list \<Rightarrow> regex list \<Rightarrow> Router \<Rightarrow> py_val" where
  "OSRestriction_r_is_ok ok bad r =
     (if list_ex (\<lambda>y. y (os r)) ok then PyBool True
      else if list_ex (\<lambda>b. b (os r)) bad then PyBool False
      else if ok \<noteq> [] then PyBool False
      else if bad \<noteq> [] then PyBool True
      else PyNone)"

fun r_is_ok :: "NodeRestriction \<Rightarrow> Router \<Rightarrow> py_val" where
  "r_is_ok NodeRestrictionI r = PyBool True"
| "r_is_ok (PercentileRestriction pct_skip pct_fast sorted_r) r =
     (if list_rank r < int (length sorted_r) * pct_skip div 100 then PyBool False
      else if list_rank r > int (length sorted_r) * pct_fast div 100 then PyBool False
      else PyBool True)"
| "r_is_ok (OSRestriction ok bad) r = OSRestriction_r_is_ok ok bad r"
| "r_is_ok ConserveExitsRestriction r = PyBool (''Exit'' \<notin> set (flags r))"
| "r_is_ok (FlagsRestriction mandatory forbidden) r =
     (if list_ex (\<lambda>m. m \<notin> set (flags r)) mandatory then PyBool False
      else PyBool (list_all (\<lambda>f. f \<notin> set (flags r)) forbidden))"
| "r_is_ok (NickRestriction n) r = PyBool (nickname r = n)"
| "r_is_ok (IdHexRestriction h) r = PyBool (idhex r = h)"
| "r_is_ok (MinBWRestriction min_bw) r = PyBool (bw r \<ge> min_bw)"
| "r_is_ok (VersionIncludeRestriction eq) r = PyBool (list_ex (\<lambda>e. e = version r) eq)"
| "r_is_ok (VersionExcludeRestriction exclude) r =
     PyBool (list_all (\<lambda>e. e \<noteq> version r) exclude)"
| "r_is_ok (VersionRangeRestriction gr_eq' less_eq') r =
     PyBool (version_le gr_eq' (version r) \<and>
       (case less_eq' of None \<Rightarrow> True | Some v \<Rightarrow> version_le (version r) v))"
| "r_is_ok (ExitPolicyRestriction to_ip to_port) r = PyBool (will_exit_to r to_ip to_port)"
| "r_is_ok MetaNodeRestrictionI r = PyBool True"
| "r_is_ok (OrNodeRestriction rstrs) r = PyBool (list_ex (\<lambda>rs. truthy (r_is_ok rs r)) rstrs)"
| "r_is_ok (NotNodeRestriction a) r = PyBool (\<not> truthy (r_is_ok a r))"
| "r_is_ok (AtLeastNNodeRestriction rstrs n) r =
     PyBool (int (length (filter (\<lambda>rs. truthy (r_is_ok rs r)) rstrs)) \<ge> n)"
| "r_is_ok CountryCodeRestriction r = PyBool (country_code r \<noteq> None)"
| "r_is_ok (CountryRestriction cc) r = PyBool (country_code r = cc)"
| "r_is_ok (ExcludeCountriesRestriction countries) r =
     PyBool (country_code r \<notin> set countries)"

text \<open>\<open>NodeRestrictionList.r_is_ok\<close>: \<open>all(rs.r_is_ok(r) for rs in self.restrictions)\<close>.\<close>

definition NodeRestrictionList_r_is_ok :: "NodeRestriction list \<Rightarrow> Router \<Rightarrow> bool" where
  "NodeRestrictionList_r_is_ok restrictions r =
     list_all (\<lambda>rs. truthy (r_is_ok rs r)) restrictions"

datatype PathRestriction =
    PathRestrictionI
  | Subnet16Restriction
  | UniqueRestriction
  | UniqueCountryRestriction
  | SingleCountryRestriction
  | ContinentRestriction int
  | ContinentJumperRestriction
  | UniqueContinentRestriction
  | OceanPhobicRestriction int

definition mask16 :: int where
  "mask16 = inet_aton_I (dotted 255 255 0 0)"

text \<open>
  \<open>Subnet16Restriction.path_is_ok\<close> reads \<open>path[0]\<close>, which raises IndexError on the
  empty list, and compares that hop with the hops of \<open>path[1:]\<close>.
\<close>

fun Subnet16Restriction_path_is_ok :: "Router list \<Rightarrow> py_error + bool" where
  "Subnet16Restriction_path_is_ok [] = Inl IndexError"
| "Subnet16Restriction_path_is_ok (r0 # rest) =
     (let ip16 = ip r0 AND mask16 in
      Inr (list_all (\<lambda>r. ip16 \<noteq> (ip r AND mask16)) rest))"

text \<open>\<open>all(path[i] not in path[:i] for i in xrange(0, len(path)))\<close>\<close>

definition UniqueRestriction_path_is_ok :: "Router list \<Rightarrow> bool" where
  "UniqueRestriction_path_is_ok path =
     list_all (\<lambda>i. path ! i \<notin> set (take i path)) [0 ..< length path]"

text \<open>The nested loops over \<open>i < j\<close> of the two "unique" GeoIP restrictions.\<close>

definition no_pair_equal :: "('a \<Rightarrow> 'b) \<Rightarrow> 'a list \<Rightarrow> bool" where
  "no_pair_equal f path =
     list_all (\<lambda>i. list_all (\<lambda>j. f (path ! i) \<noteq> f (path ! j)) [i + 1 ..< length path])
       [0 ..< length path - 1]"

text \<open>
  The loops of \<open>ContinentRestriction\<close>, \<open>OceanPhobicRestriction\<close> and
  \<open>ContinentJumperRestriction\<close> carry the previous router; a Router object is true.
\<close>

fun crossings :: "('a \<Rightarrow> 'b) \<Rightarrow> 'a option \<Rightarrow> 'a list \<Rightarrow> int" where
  "crossings f prev [] = 0"
| "crossings f None (r # rs) = crossings f (Some r) rs"
| "crossings f (Some p) (r # rs) = (if f r \<noteq> f p then 1 else 0) + crossings f (Some r) rs"

fun all_jump :: "('a \<Rightarrow> 'b) \<Rightarrow> 'a option \<Rightarrow> 'a list \<Rightarrow> bool" where
  "all_jump f prev [] = True"
| "all_jump f None (r # rs) = all_jump f (Some r) rs"
| "all_jump f (Some p) (r # rs) = (if f r = f p then False else all_jump f (Some r) rs)"

fun path_is_ok :: "PathRestriction \<Rightarrow> Router list \<Rightarrow> py_error + bool" where
  "path_is_ok PathRestrictionI path = Inr True"
| "path_is_ok Subnet16Restriction path = Subnet16Restriction_path_is_ok path"
| "path_is_ok UniqueRestriction path = Inr (UniqueRestriction_path_is_ok path)"
| "path_is_ok UniqueCountryRestriction path = Inr (no_pair_equal country_code path)"
| "path_is_ok SingleCountryRestriction path =
     (case path of [] \<Rightarrow> Inl IndexError
      | r0 # _ \<Rightarrow> Inr (list_all (\<lambda>r. country_code r0 = country_code r) path))"
| "path_is_ok (ContinentRestriction n) path = Inr (crossings continent None path \<le> n)"
| "path_is_ok ContinentJumperRestriction path = Inr (all_jump continent None path)"
| "path_is_ok UniqueContinentRestriction path = Inr (no_pair_equal continent path)"
| "path_is_ok (OceanPhobicRestriction n) path = Inr (crossings cont_group None path \<le> n)"

text \<open>
  \<open>PathRestrictionList.path_is_ok\<close>: \<open>all\<close> over a generator stops at the first false
  value, so a later restriction is not evaluated and cannot raise.
\<close>

fun PathRestrictionList_path_is_ok :: "PathRestriction list \<Rightarrow> Router list \<Rightarrow> py_error + bool" where
  "PathRestrictionList_path_is_ok [] path = Inr True"
| "PathRestrictionList_path_is_ok (rs # rest) path =
     (case path_is_ok rs path of
        Inl e \<Rightarrow> Inl e
      | Inr False \<Rightarrow> Inr False
      | Inr True \<Rightarrow> PathRestrictionList_path_is_ok rest path)"

subsection \<open>Classes and \<open>isinstance\<close>\<close>

datatype rclass =
    K_NodeRestriction | K_PercentileRestriction | K_OSRestriction
  | K_ConserveExitsRestriction | K_FlagsRestriction | K_NickRestriction
  | K_IdHexRestriction | K_MinBWRestriction | K_VersionIncludeRestriction
  | K_VersionExcludeRestriction | K_VersionRangeRestriction | K_ExitPolicyRestriction
  | K_MetaNodeRestriction | K_OrNodeRestriction | K_NotNodeRestriction
  | K_AtLeastNNodeRestriction | K_CountryCodeRestriction | K_CountryRestriction
  | K_ExcludeCountriesRestriction
  | K_PathRestriction | K_Subnet16Restriction | K_UniqueRestriction
  | K_UniqueCountryRestriction | K_SingleCountryRestriction | K_ContinentRestriction
  | K_ContinentJumperRestriction | K_UniqueContinentRestriction | K_OceanPhobicRestriction

fun node_class :: "NodeRestriction \<Rightarrow> rclass" where
  "node_class NodeRestrictionI = K_NodeRestriction"
| "node_class (PercentileRestriction _ _ _) = K_PercentileRestriction"
| "node_class (OSRestriction _ _) = K_OSRestriction"
| "node_class ConserveExitsRestriction = K_ConserveExitsRestriction"
| "node_class (FlagsRestriction _ _) = K_FlagsRestriction"
| "node_class (NickRestriction _) = K_NickRestriction"
| "node_class (IdHexRestriction _) = K_IdHexRestriction"
| "node_class (MinBWRestriction _) = K_MinBWRestriction"
| "node_class (VersionIncludeRestriction _) = K_VersionIncludeRestriction"
| "node_class (VersionExcludeRestriction _) = K_VersionExcludeRestriction"
| "node_class (VersionRangeRestriction _ _) = K_VersionRangeRestriction"
| "node_class (ExitPolicyRestriction _ _) = K_ExitPolicyRestriction"
| "node_class MetaNodeRestrictionI = K_MetaNodeRestriction"
| "node_class (OrNodeRestriction _) = K_OrNodeRestriction"
| "node_class (NotNodeRestriction _) = K_NotNodeRestriction"
| "node_class (AtLeastNNodeRestriction _ _) = K_AtLeastNNodeRestriction"
| "node_class CountryCodeRestriction = K_CountryCodeRestriction"
| "node_class (CountryRestriction _) = K_CountryRestriction"
| "node_class (ExcludeCountriesRestriction _) = K_ExcludeCountriesRestriction"

fun path_class :: "PathRestriction \<Rightarrow> rclass" where
  "path_class PathRestrictionI = K_PathRestriction"
| "path_class Subnet16Restriction = K_Subnet16Restriction"
| "path_class UniqueRestriction = K_UniqueRestriction"
| "path_class UniqueCountryRestriction = K_UniqueCountryRestriction"
| "path_class SingleCountryRestriction = K_SingleCountryRestriction"
| "path_class (ContinentRestriction _) = K_ContinentRestriction"
| "path_class ContinentJumperRestriction = K_ContinentJumperRestriction"
| "path_class UniqueContinentRestriction = K_UniqueContinentRestriction"
| "path_class (OceanPhobicRestriction _) = K_OceanPhobicRestriction"

text \<open>The base class named in each \<open>class\<close> statement; the two interfaces have none.\<close>

fun base_class :: "rclass \<Rightarrow> rclass option" where
  "base_class K_NodeRestriction = None"
| "base_class K_PathRestriction = None"
| "base_class K_MetaNodeRestriction = Some K_NodeRestriction"
| "base_class K_OrNodeRestriction = Some K_MetaNodeRestriction"
| "base_class K_NotNodeRestriction = Some K_MetaNodeRestriction"
| "base_class K_AtLeastNNodeRestriction = Some K_MetaNodeRestriction"
| "base_class K_Subnet16Restriction = Some K_PathRestriction"
| "base_class K_UniqueRestriction = Some K_PathRestriction"
| "base_class K_UniqueCountryRestriction = Some K_PathRestriction"
| "base_class K_SingleCountryRestriction = Some K_PathRestriction"
| "base_class K_ContinentRestriction = Some K_PathRestriction"
| "base_class K_ContinentJumperRestriction = Some K_PathRestriction"
| "base_class K_UniqueContinentRestriction = Some K_PathRestriction"
| "base_class K_OceanPhobicRestriction = Some K_PathRestriction"
| "base_class _ = Some K_NodeRestriction"

text \<open>The hierarchy is at most three classes deep.\<close>

definition issubclass :: "rclass \<Rightarrow> rclass \<Rightarrow> bool" where
  "issubclass c k =
     (c = k \<or> base_class c = Some k \<or>
      (case base_class c of None \<Rightarrow> False | Some b \<Rightarrow> base_class b = Some k))"

definition isinstance_node :: "NodeRestriction \<Rightarrow> rclass \<Rightarrow> bool" where
  "isinstance_node r k = issubclass (node_class r) k"

definition isinstance_path :: "PathRestriction \<Rightarrow> rclass \<Rightarrow> bool" where
  "isinstance_path r k = issubclass (path_class r) k"

text \<open>
  \<open>del_restriction\<close> of both list classes:
  \<open>filter(lambda r: not isinstance(r, RestrictionClass), self.restrictions)\<close>.
  \<open>add_restriction\<close> appends.
\<close>

definition NodeRestrictionList_del_restriction ::
  "NodeRestriction list \<Rightarrow> rclass \<Rightarrow> NodeRestriction list" where
  "NodeRestrictionList_del_restriction restrictions RestrictionClass =
     filter (\<lambda>r. \<not> isinstance_node r RestrictionClass) restrictions"

definition PathRestrictionList_del_restriction ::
  "PathRestriction list \<Rightarrow> rclass \<Rightarrow> PathRestriction list" where
  "PathRestrictionList_del_restriction restrictions RestrictionClass =
     filter (\<lambda>r. \<not> isinstance_path r RestrictionClass) restrictions"

definition add_restriction :: "'a list \<Rightarrow> 'a \<Rightarrow> 'a list" where
  "add_restriction restrictions restr = restrictions @ [restr]"

text \<open>The restrictions nested anywhere below a restriction.\<close>

fun nested :: "NodeRestriction \<Rightarrow> NodeRestriction list" where
  "nested (OrNodeRestriction rstrs) = concat (map (\<lambda>rs. rs # nested rs) rstrs)"
| "nested (NotNodeRestriction a) = a # nested a"
| "nested (AtLeastNNodeRestriction rstrs n) = concat (map (\<lambda>rs. rs # nested rs) rstrs)"
| "nested _ = []"

text \<open>Inputs of the scenarios.\<close>

definition router_at :: "string \<Rightarrow> ipaddr \<Rightarrow> Router" where
  "router_at n a = router0 \<lparr> idhex := n, nickname := n, ip := inet_aton_I a \<rparr>"

definition subnet16_path3 :: "Router list" where
  "subnet16_path3 =
     [router_at ''a'' (dotted 1 2 3 4), router_at ''b'' (dotted 5 6 7 8),
      router_at ''c'' (dotted 5 6 9 9)]"

definition nested_example :: "NodeRestriction list" where
  "nested_example =
     [OrNodeRestriction [NickRestriction ''a'', FlagsRestriction [''Guard''] []],
      NickRestriction ''b'', ConserveExitsRestriction,
      NotNodeRestriction (NickRestriction ''c'')]"

section \<open>PathSupport.py: node generators\<close>

text \<open>
  A generator object of any of the three classes: the attributes of \<open>NodeGenerator\<close>,
  of \<open>OrderedExitGenerator\<close> (\<open>next_exit_by_port\<close> is a dictionary, kept as an
  association list) and of \<open>BwWeightedGenerator\<close>. The methods dispatch on the class.
  \<open>weight\<close> is a Python float (\<open>1.0\<close>, or a quotient with the float \<open>bw_per_hop\<close>)
  or the integer \<open>0\<close>; it is modelled by an exact rational, as are the values computed
  from it.
\<close>

datatype gen_class = UniformGenerator | OrderedExitGenerator | BwWeightedGenerator

record NodeGenerator =
  gen_class :: gen_class
  rstr_list :: "NodeRestriction list"
  sorted_r :: "Router list"
  routers :: "Router list"
  to_port :: int
  next_exit_by_port :: "(int \<times> int) list"
  last_idx :: int
  exit :: bool
  total_bw :: int
  total_exit_bw :: int
  exit_bw_to_dest :: int
  pathlen :: int
  weight :: rat

text \<open>\<open>int(x)\<close> of a float truncates towards zero.\<close>

definition py_int :: "rat \<Rightarrow> int" where
  "py_int x = (if x \<ge> 0 then \<lfloor>x\<rfloor> else \<lceil>x\<rceil>)"

definition NodeGenerator_rewind :: "NodeGenerator \<Rightarrow> NodeGenerator" where
  "NodeGenerator_rewind g = g \<lparr> routers := sorted_r g \<rparr>"

definition OrderedExitGenerator_rewind :: "NodeGenerator \<Rightarrow> NodeGenerator" where
  "OrderedExitGenerator_rewind g =
     (case map_of (next_exit_by_port g) (to_port g) of
        None \<Rightarrow> g \<lparr> next_exit_by_port := AList.update (to_port g) 0 (next_exit_by_port g),
                   last_idx := int (length (sorted_r g)) \<rparr>
      | Some c \<Rightarrow>
          if c = 0 then
            g \<lparr> next_exit_by_port := AList.update (to_port g) 0 (next_exit_by_port g),
                last_idx := int (length (sorted_r g)) \<rparr>
          else g \<lparr> last_idx := c \<rparr>)"

text \<open>
  The loops over \<open>self.sorted_r\<close> in \<open>BwWeightedGenerator.rewind\<close>: the first adds up
  \<open>exit_bw_to_dest\<close>, the second \<open>total_bw\<close> and \<open>total_exit_bw\<close>.
\<close>

fun exit_bw_loop :: "NodeRestriction list \<Rightarrow> Router list \<Rightarrow> int \<Rightarrow> int" where
  "exit_bw_loop rl [] acc = acc"
| "exit_bw_loop rl (r # rs) acc =
     (if NodeRestrictionList_r_is_ok rl r then exit_bw_loop rl rs (acc + bw r)
      else exit_bw_loop rl rs acc)"

fun total_bw_loop :: "NodeRestriction list \<Rightarrow> Router list \<Rightarrow> int \<times> int \<Rightarrow> int \<times> int" where
  "total_bw_loop rl [] (tb, teb) = (tb, teb)"
| "total_bw_loop rl (r # rs) (tb, teb) =
     (if NodeRestrictionList_r_is_ok rl r then
        (if ''Exit'' \<in> set (flags r) then total_bw_loop rl rs (tb + bw r, teb + bw r)
         else total_bw_loop rl rs (tb + bw r, teb))
      else total_bw_loop rl rs (tb, teb))"

definition BwWeightedGenerator_rewind :: "NodeGenerator \<Rightarrow> py_error + NodeGenerator" where
  "BwWeightedGenerator_rewind g0 =
     (let g = NodeGenerator_rewind g0 in
      if exit g then
        Inr (g \<lparr> exit_bw_to_dest := exit_bw_loop (rstr_list g) (sorted_r g) 0, weight := 1 \<rparr>)
      else
        let (tb, teb) = total_bw_loop (rstr_list g) (sorted_r g) (0, 0)
        in if pathlen g = 0 then Inl ZeroDivisionError
           else
             let bw_per_hop = (1 * of_int tb) / of_int (pathlen g) :: rat;
                 w = (if of_int teb \<ge> bw_per_hop \<and> teb > 0
                      then (of_int teb - bw_per_hop) / of_int teb else 0)
             in Inr (g \<lparr> total_exit_bw := teb, total_bw := tb, weight := w \<rparr>))"

definition rewind :: "NodeGenerator \<Rightarrow> py_error + NodeGenerator" where
  "rewind g =
     (case gen_class g of
        UniformGenerator \<Rightarrow> Inr (NodeGenerator_rewind g)
      | OrderedExitGenerator \<Rightarrow> Inr (OrderedExitGenerator_rewind g)
      | BwWeightedGenerator \<Rightarrow> BwWeightedGenerator_rewind g)"

definition mark_chosen :: "NodeGenerator \<Rightarrow> Router \<Rightarrow> py_error + NodeGenerator" where
  "mark_chosen g r =
     (case gen_class g of
        OrderedExitGenerator \<Rightarrow>
          (case map_of (next_exit_by_port g) (to_port g) of
             None \<Rightarrow> Inl KeyError
           | Some c \<Rightarrow>
               Inr (g \<lparr> next_exit_by_port := AList.update (to_port g) (c + 1) (next_exit_by_port g) \<rparr>))
      | _ \<Rightarrow>
          (case py_remove (routers g) r of
             Inl e \<Rightarrow> Inl e
           | Inr rs \<Rightarrow> Inr (g \<lparr> routers := rs \<rparr>)))"

definition all_chosen :: "NodeGenerator \<Rightarrow> py_error + bool" where
  "all_chosen g =
     (case gen_class g of
        OrderedExitGenerator \<Rightarrow>
          (case map_of (next_exit_by_port g) (to_port g) of
             None \<Rightarrow> Inl KeyError
           | Some c \<Rightarrow> Inr (last_idx g = c))
      | _ \<Rightarrow> Inr (routers g = []))"

definition set_port :: "NodeGenerator \<Rightarrow> int \<Rightarrow> NodeGenerator" where
  "set_port g port = OrderedExitGenerator_rewind (g \<lparr> to_port := port \<rparr>)"

definition reset_restriction :: "NodeGenerator \<Rightarrow> NodeRestriction list \<Rightarrow> NodeGenerator" where
  "reset_restriction g rl = g \<lparr> rstr_list := rl \<rparr>"

text \<open>The constructors: each stores its arguments and calls \<open>self.rewind()\<close>.\<close>

definition generator0 :: NodeGenerator where
  "generator0 = \<lparr> gen_class = UniformGenerator, rstr_list = [], sorted_r = [], routers = [],
     to_port = 0, next_exit_by_port = [], last_idx = 0, exit = False, total_bw = 0,
     total_exit_bw = 0, exit_bw_to_dest = 0, pathlen = 0, weight = 0 \<rparr>"

definition UniformGenerator_init :: "Router list \<Rightarrow> NodeRestriction list \<Rightarrow> NodeGenerator" where
  "UniformGenerator_init srt rl =
     NodeGenerator_rewind (generator0 \<lparr> gen_class := UniformGenerator, rstr_list := rl,
       sorted_r := srt \<rparr>)"

definition OrderedExitGenerator_init ::
  "int \<Rightarrow> Router list \<Rightarrow> NodeRestriction list \<Rightarrow> NodeGenerator" where
  "OrderedExitGenerator_init port srt rl =
     OrderedExitGenerator_rewind (generator0 \<lparr> gen_class := OrderedExitGenerator,
       rstr_list := rl, sorted_r := srt, to_port := port, next_exit_by_port := [] \<rparr>)"


subsection \<open>The iterators returned by \<open>next_r()\<close>\<close>

text \<open>
  \<open>next_r\<close> is a Python generator function: calling it returns an iterator that has
  not started; \<open>.next()\<close> runs the body to the next \<open>yield\<close>, or to its end, where
  it raises StopIteration and the iterator is finished for good. The body reads and
  writes the attributes of the generator object at the time it runs.

  \<open>random.choice\<close> and \<open>random.randint\<close> take their values from a sequence of
  naturals \<open>rnd\<close>, read at a position that every draw advances: a theorem for every
  \<open>rnd\<close> holds for every outcome of the draws.

  The loops may run forever; every function that loops takes a bound on its iterations
  and returns \<open>None\<close> when the bound is used up.
\<close>

datatype it_state = NotStarted | Suspended | Finished

datatype 'a outcome = Yield 'a | StopIteration | Raise py_error

definition random_choice :: "(nat \<Rightarrow> nat) \<Rightarrow> nat \<Rightarrow> 'a list \<Rightarrow> 'a" where
  "random_choice rnd k xs = xs ! (rnd k mod length xs)"

definition random_randint0 :: "(nat \<Rightarrow> nat) \<Rightarrow> nat \<Rightarrow> int \<Rightarrow> int" where
  "random_randint0 rnd k hi = int (rnd k mod nat (hi + 1))"

text \<open>
  \<open>UniformGenerator.next_r\<close>:
  \<open>while not self.all_chosen(): r = random.choice(self.routers); if ok(r): yield r\<close>
\<close>

fun UniformGenerator_next ::
  "nat \<Rightarrow> (nat \<Rightarrow> nat) \<Rightarrow> NodeGenerator \<Rightarrow> nat \<Rightarrow> (Router outcome \<times> nat) option" where
  "UniformGenerator_next 0 rnd g k = None"
| "UniformGenerator_next (Suc n) rnd g k =
     (if routers g = [] then Some (StopIteration, k)
      else
        let r = random_choice rnd k (routers g) in
        if NodeRestrictionList_r_is_ok (rstr_list g) r then Some (Yield r, Suc k)
        else UniformGenerator_next n rnd g (Suc k))"

text \<open>
  \<open>OrderedExitGenerator.next_r\<close>, from the head of its \<open>while True\<close> loop. The cursor
  is \<open>self.next_exit_by_port[self.to_port]\<close>.
\<close>

fun OrderedExitGenerator_loop ::
  "nat \<Rightarrow> NodeGenerator \<Rightarrow> (Router outcome \<times> NodeGenerator) option" where
  "OrderedExitGenerator_loop 0 g = None"
| "OrderedExitGenerator_loop (Suc n) g =
     (case map_of (next_exit_by_port g) (to_port g) of
        None \<Rightarrow> Some (Raise KeyError, g)
      | Some c0 \<Rightarrow>
          let g1 = (if c0 \<ge> int (length (sorted_r g))
                    then g \<lparr> next_exit_by_port := AList.update (to_port g) 0 (next_exit_by_port g) \<rparr>
                    else g);
              c = (if c0 \<ge> int (length (sorted_r g)) then 0 else c0)
          in case py_get (sorted_r g1) c of
               Inl e \<Rightarrow> Some (Raise e, g1)
             | Inr r \<Rightarrow>
                 if NodeRestrictionList_r_is_ok (rstr_list g1) r then Some (Yield r, g1)
                 else
                   let g2 = g1 \<lparr> next_exit_by_port :=
                              AList.update (to_port g1) (c + 1) (next_exit_by_port g1) \<rparr>
                   in if last_idx g2 = c + 1 then Some (StopIteration, g2)
                      else OrderedExitGenerator_loop n g2)"

text \<open>
  Resuming after the \<open>yield\<close> runs the test \<open>if self.last_idx == cursor: break\<close>
  before the loop starts over.
\<close>

definition OrderedExitGenerator_next ::
  "nat \<Rightarrow> NodeGenerator \<Rightarrow> it_state \<Rightarrow> (Router outcome \<times> NodeGenerator) option" where
  "OrderedExitGenerator_next n g st =
     (case st of
        NotStarted \<Rightarrow> OrderedExitGenerator_loop n g
      | Suspended \<Rightarrow>
          (case map_of (next_exit_by_port g) (to_port g) of
             None \<Rightarrow> Some (Raise KeyError, g)
           | Some c \<Rightarrow>
               if last_idx g = c then Some (StopIteration, g)
               else OrderedExitGenerator_loop n g)
      | Finished \<Rightarrow> Some (StopIteration, g))"

text \<open>
  The \<open>for r in self.routers\<close> loop of \<open>BwWeightedGenerator.next_r\<close>, up to its
  \<open>yield\<close>: the result is the router yielded, or \<open>None\<close> when the loop ends or breaks
  without a yield.
\<close>

definition effective_bw :: "rat \<Rightarrow> Router \<Rightarrow> rat" where
  "effective_bw w r = (if ''Exit'' \<in> set (flags r) then w * of_int (bw r) else of_int (bw r))"

fun bw_scan :: "NodeRestriction list \<Rightarrow> rat \<Rightarrow> rat \<Rightarrow> Router list \<Rightarrow> Router option" where
  "bw_scan rl w i [] = None"
| "bw_scan rl w i (r # rs) =
     (if i < 0 then None
      else if NodeRestrictionList_r_is_ok rl r then
        (let i' = i - effective_bw w r in
         if i' < 0 then Some r else bw_scan rl w i' rs)
      else bw_scan rl w i rs)"

text \<open>
  The upper end of the range of \<open>random.randint\<close>. After a \<open>yield\<close> the counter is
  below zero, so the \<open>for\<close> loop breaks at its next router or has ended, and the
  \<open>while True\<close> loop draws again: resuming is the same as starting.
\<close>

definition randint_hi :: "NodeGenerator \<Rightarrow> int" where
  "randint_hi g =
     (if exit g then exit_bw_to_dest g
      else (total_bw g - total_exit_bw g) + py_int (of_int (total_exit_bw g) * weight g))"

fun BwWeightedGenerator_next ::
  "nat \<Rightarrow> (nat \<Rightarrow> nat) \<Rightarrow> NodeGenerator \<Rightarrow> nat \<Rightarrow> (Router outcome \<times> nat) option" where
  "BwWeightedGenerator_next 0 rnd g k = None"
| "BwWeightedGenerator_next (Suc n) rnd g k =
     (if randint_hi g < 0 then Some (Raise ValueError, k)
      else
        case bw_scan (rstr_list g) (weight g) (of_int (random_randint0 rnd k (randint_hi g)))
               (routers g) of
          Some r \<Rightarrow> Some (Yield r, Suc k)
        | None \<Rightarrow> BwWeightedGenerator_next n rnd g (Suc k))"

text \<open>
  \<open>it.next()\<close> on an iterator in state \<open>st\<close> over the generator object \<open>g\<close>: the
  outcome, the generator object, the state of the iterator and the position in \<open>rnd\<close>
  afterwards.
\<close>

definition state_after :: "'a outcome \<Rightarrow> it_state" where
  "state_after out = (case out of Yield _ \<Rightarrow> Suspended | _ \<Rightarrow> Finished)"

definition it_next ::
  "nat \<Rightarrow> (nat \<Rightarrow> nat) \<Rightarrow> NodeGenerator \<Rightarrow> it_state \<Rightarrow> nat \<Rightarrow>
   (Router outcome \<times> NodeGenerator \<times> it_state \<times> nat) option" where
  "it_next n rnd g st k =
     (if st = Finished then Some (StopIteration, g, Finished, k)
      else
        case gen_class g of
          UniformGenerator \<Rightarrow>
            (case UniformGenerator_next n rnd g k of
               None \<Rightarrow> None
             | Some (out, k') \<Rightarrow> Some (out, g, state_after out, k'))
        | OrderedExitGenerator \<Rightarrow>
            (case OrderedExitGenerator_next n g st of
               None \<Rightarrow> None
             | Some (out, g') \<Rightarrow> Some (out, g', state_after out, k))
        | BwWeightedGenerator \<Rightarrow>
            (case BwWeightedGenerator_next n rnd g k of
               None \<Rightarrow> None
             | Some (out, k') \<Rightarrow> Some (out, g, state_after out, k')))"

section \<open>PathSupport.py: the path selector\<close>

text \<open>
  The three generators of a \<open>PathSelector\<close> are three objects, as
  \<open>SelectionManager.reconfigure\<close> builds them.
\<close>

record PathSelector =
  entry_gen :: NodeGenerator
  mid_gen :: NodeGenerator
  exit_gen :: NodeGenerator
  path_restrict :: "PathRestriction list"

datatype gen_ref = EntryGen | MidGen | ExitGen

fun get_gen :: "PathSelector \<Rightarrow> gen_ref \<Rightarrow> NodeGenerator" where
  "get_gen s EntryGen = entry_gen s"
| "get_gen s MidGen = mid_gen s"
| "get_gen s ExitGen = exit_gen s"

fun set_gen :: "PathSelector \<Rightarrow> gen_ref \<Rightarrow> NodeGenerator \<Rightarrow> PathSelector" where
  "set_gen s EntryGen g = s \<lparr> entry_gen := g \<rparr>"
| "set_gen s MidGen g = s \<lparr> mid_gen := g \<rparr>"
| "set_gen s ExitGen g = s \<lparr> exit_gen := g \<rparr>"

text \<open>
  The state of \<open>build_path\<close>: the selector, the local variables \<open>entry\<close>, \<open>mid\<close>
  and \<open>ext\<close> (each an iterator: the generator object it runs on and its state) and
  the position in the sequence of random draws.
\<close>

type_synonym iterator = "gen_ref \<times> it_state"

record bp_state =
  sel :: PathSelector
  entry :: iterator
  mid :: iterator
  ext :: iterator
  pos :: nat

datatype it_var = EntryIt | MidIt | ExtIt

fun get_it :: "bp_state \<Rightarrow> it_var \<Rightarrow> iterator" where
  "get_it s EntryIt = entry s"
| "get_it s MidIt = mid s"
| "get_it s ExtIt = ext s"

fun set_it :: "bp_state \<Rightarrow> it_var \<Rightarrow> iterator \<Rightarrow> bp_state" where
  "set_it s EntryIt i = s \<lparr> entry := i \<rparr>"
| "set_it s MidIt i = s \<lparr> mid := i \<rparr>"
| "set_it s ExtIt i = s \<lparr> ext := i \<rparr>"

definition next_of ::
  "nat \<Rightarrow> (nat \<Rightarrow> nat) \<Rightarrow> it_var \<Rightarrow> bp_state \<Rightarrow> (Router outcome \<times> bp_state) option" where
  "next_of n rnd v s =
     (let (ref, st) = get_it s v in
      case it_next n rnd (get_gen (sel s) ref) st (pos s) of
        None \<Rightarrow> None
      | Some (out, g', st', k') \<Rightarrow>
          Some (out, (set_it s v (ref, st')) \<lparr> sel := set_gen (sel s) ref g', pos := k' \<rparr>))"

definition rewind_all :: "PathSelector \<Rightarrow> py_error + PathSelector" where
  "rewind_all s =
     (case rewind (entry_gen s) of
        Inl e \<Rightarrow> Inl e
      | Inr eg \<Rightarrow>
          (case rewind (mid_gen s) of
             Inl e \<Rightarrow> Inl e
           | Inr mg \<Rightarrow>
               (case rewind (exit_gen s) of
                  Inl e \<Rightarrow> Inl e
                | Inr xg \<Rightarrow> Inr (s \<lparr> entry_gen := eg, mid_gen := mg, exit_gen := xg \<rparr>))))"

text \<open>
  \<open>path.extend(mid.next() for _ in xrange(1, pathlen-1))\<close>: in Python 2 a
  StopIteration raised inside the generator expression ends the expression, and
  \<open>extend\<close> returns with the routers drawn so far.
\<close>

fun draw_mids ::
  "nat \<Rightarrow> (nat \<Rightarrow> nat) \<Rightarrow> nat \<Rightarrow> bp_state \<Rightarrow> ((py_error + Router list) \<times> bp_state) option" where
  "draw_mids n rnd 0 s = Some (Inr [], s)"
| "draw_mids n rnd (Suc c) s =
     (case next_of n rnd MidIt s of
        None \<Rightarrow> None
      | Some (Raise e, s') \<Rightarrow> Some (Inl e, s')
      | Some (StopIteration, s') \<Rightarrow> Some (Inr [], s')
      | Some (Yield r, s') \<Rightarrow>
          (case draw_mids n rnd c s' of
             None \<Rightarrow> None
           | Some (Inl e, s'') \<Rightarrow> Some (Inl e, s'')
           | Some (Inr rs, s'') \<Rightarrow> Some (Inr (r # rs), s'')))"

text \<open>The body of the \<open>try\<close> up to the complete \<open>path\<close>.\<close>

definition draw_path ::
  "nat \<Rightarrow> (nat \<Rightarrow> nat) \<Rightarrow> int \<Rightarrow> bp_state \<Rightarrow> (Router list outcome \<times> bp_state) option" where
  "draw_path n rnd plen s =
     (if plen = 1 then
        (case next_of n rnd ExtIt s of
           None \<Rightarrow> None
         | Some (Raise e, s') \<Rightarrow> Some (Raise e, s')
         | Some (StopIteration, s') \<Rightarrow> Some (StopIteration, s')
         | Some (Yield x, s') \<Rightarrow> Some (Yield [x], s'))
      else
        (case next_of n rnd EntryIt s of
           None \<Rightarrow> None
         | Some (Raise e, s1) \<Rightarrow> Some (Raise e, s1)
         | Some (StopIteration, s1) \<Rightarrow> Some (StopIteration, s1)
         | Some (Yield e, s1) \<Rightarrow>
             (case draw_mids n rnd (nat (plen - 2)) s1 of
                None \<Rightarrow> None
              | Some (Inl err, s2) \<Rightarrow> Some (Raise err, s2)
              | Some (Inr ms, s2) \<Rightarrow>
                  (case next_of n rnd ExtIt s2 of
                     None \<Rightarrow> None
                   | Some (Raise err, s3) \<Rightarrow> Some (Raise err, s3)
                   | Some (StopIteration, s3) \<Rightarrow> Some (StopIteration, s3)
                   | Some (Yield x, s3) \<Rightarrow> Some (Yield (e # ms @ [x]), s3)))))"

text \<open>The calls of \<open>mark_chosen\<close> once the path has passed the path restrictions.\<close>

fun mark_mids :: "PathSelector \<Rightarrow> Router list \<Rightarrow> int list \<Rightarrow> py_error + PathSelector" where
  "mark_mids s path [] = Inr s"
| "mark_mids s path (i # is) =
     (case py_get path i of
        Inl e \<Rightarrow> Inl e
      | Inr r \<Rightarrow>
          (case mark_chosen (mid_gen s) r of
             Inl e \<Rightarrow> Inl e
           | Inr g \<Rightarrow> mark_mids (s \<lparr> mid_gen := g \<rparr>) path is))"

definition mark_path :: "int \<Rightarrow> Router list \<Rightarrow> PathSelector \<Rightarrow> py_error + PathSelector" where
  "mark_path plen path s =
     (case py_get path 0 of
        Inl e \<Rightarrow> Inl e
      | Inr r0 \<Rightarrow>
          (case mark_chosen (entry_gen s) r0 of
             Inl e \<Rightarrow> Inl e
           | Inr eg \<Rightarrow>
               (case mark_mids (s \<lparr> entry_gen := eg \<rparr>) path (map int [1 ..< nat (plen - 1)]) of
                  Inl e \<Rightarrow> Inl e
                | Inr s1 \<Rightarrow>
                    (case py_get path (plen - 1) of
                       Inl e \<Rightarrow> Inl e
                     | Inr rx \<Rightarrow>
                         (case mark_chosen (exit_gen s1) rx of
                            Inl e \<Rightarrow> Inl e
                          | Inr xg \<Rightarrow> Inr (s1 \<lparr> exit_gen := xg \<rparr>))))))"

text \<open>
  The \<open>while True\<close> loop of \<open>build_path\<close>. The handler of StopIteration rewinds the
  three generators and takes all three new iterators from \<open>self.entry_gen\<close>.
\<close>

fun build_path_loop ::
  "nat \<Rightarrow> (nat \<Rightarrow> nat) \<Rightarrow> int \<Rightarrow> bp_state \<Rightarrow> ((py_error + Router list) \<times> bp_state) option" where
  "build_path_loop 0 rnd plen s = None"
| "build_path_loop (Suc n) rnd plen s =
     (case draw_path n rnd plen s of
        None \<Rightarrow> None
      | Some (Raise e, s') \<Rightarrow> Some (Inl e, s')
      | Some (StopIteration, s') \<Rightarrow>
          (case rewind_all (sel s') of
             Inl e \<Rightarrow> Some (Inl e, s')
           | Inr sl \<Rightarrow>
               build_path_loop n rnd plen
                 (s' \<lparr> sel := sl, entry := (EntryGen, NotStarted), mid := (EntryGen, NotStarted),
                       ext := (EntryGen, NotStarted) \<rparr>))
      | Some (Yield path, s') \<Rightarrow>
          (case PathRestrictionList_path_is_ok (path_restrict (sel s')) path of
             Inl e \<Rightarrow> Some (Inl e, s')
           | Inr False \<Rightarrow> build_path_loop n rnd plen s'
           | Inr True \<Rightarrow>
               (case mark_path plen path (sel s') of
                  Inl e \<Rightarrow> Some (Inl e, s')
                | Inr sl \<Rightarrow> Some (Inr path, s' \<lparr> sel := sl \<rparr>))))"

definition build_path ::
  "nat \<Rightarrow> (nat \<Rightarrow> nat) \<Rightarrow> PathSelector \<Rightarrow> int \<Rightarrow> nat \<Rightarrow>
   ((py_error + Router list) \<times> bp_state) option" where
  "build_path n rnd s plen k =
     (case rewind_all s of
        Inl e \<Rightarrow>
          Some (Inl e, \<lparr> sel = s, entry = (EntryGen, NotStarted), mid = (MidGen, NotStarted),
                         ext = (ExitGen, NotStarted), pos = k \<rparr>)
      | Inr sl \<Rightarrow>
          build_path_loop n rnd plen
            \<lparr> sel = sl, entry = (EntryGen, NotStarted), mid = (MidGen, NotStarted),
              ext = (ExitGen, NotStarted), pos = k \<rparr>)"

text \<open>What a call returns, without the state: \<open>None\<close> when the bound is used up.\<close>

definition build_path_result ::
  "nat \<Rightarrow> (nat \<Rightarrow> nat) \<Rightarrow> PathSelector \<Rightarrow> int \<Rightarrow> nat \<Rightarrow> (py_error + Router list) option" where
  "build_path_result n rnd s plen k = map_option fst (build_path n rnd s plen k)"

section \<open>PathSupport.py: circuits, streams and the event handlers\<close>

text \<open>
  \<open>Circuit\<close> and \<open>Stream\<close> objects are shared and mutated in place: a stream holds
  its pending circuit, a circuit the list of its pending streams. Objects are therefore
  kept in a store and named by their addresses. Times are Python floats; they are
  values of a type \<open>'t\<close> of which only \<open>+\<close>, \<open>-\<close> and \<open>0\<close> are used, with no law
  assumed about them. The attributes \<open>path\<close>, \<open>exit\<close>, \<open>circ\<close>, \<open>host\<close> and \<open>port\<close>
  carry a prefix here.
\<close>

type_synonym cref = nat

type_synonym sref = nat

record 't Circuit =
  circ_id :: int
  circ_path :: "Router list"
  circ_exit :: "Router option"
  built :: bool
  dirty :: bool
  closed :: bool
  detached_cnt :: int
  last_extended_at :: 't
  extend_times :: "'t list"
  setup_duration :: "'t option"
  pending_streams :: "sref list"

record 't Stream =
  strm_id :: int
  detached_from :: "int list"
  pending_circ :: "cref option"
  strm_circ :: "cref option"
  strm_host :: ipaddr
  strm_port :: int
  kind :: string
  attached_at :: 't
  bytes_read :: int
  bytes_written :: int
  failed :: bool

text \<open>
  The Tor process and the path selector are outside the handlers. Their answers are
  taken from two sequences, read at a position that every command advances:
  \<open>attach_reply\<close> tells whether an ATTACHSTREAM succeeds (otherwise \<open>ErrorReply\<close> is
  raised); \<open>build_reply\<close> is the outcome of \<open>Connection.build_circuit\<close>: the path
  that \<open>build_path\<close> returned with the circuit id of EXTENDCIRCUIT and the time at
  which the \<open>Circuit\<close> was created, an \<open>ErrorReply\<close>, another exception, or no return.
\<close>

datatype 't build_reply =
  Built "Router list" int 't | BuildErrorReply | BuildRaises py_error | BuildDiverges

record 't tor =
  attach_reply :: "nat \<Rightarrow> bool"
  build_reply :: "nat \<Rightarrow> 't build_reply"

datatype handler_class = PathBuilder | CircuitHandler | StreamHandler

text \<open>
  The handler object. \<open>circuits\<close> and \<open>streams\<close> are the two dictionaries, kept as
  association lists from ids to addresses; \<open>circuit_at\<close> and \<open>stream_at\<close> are the
  store, \<open>next_cref\<close> and \<open>next_sref\<close> the next free addresses. \<open>sel_pathlen\<close> is
  \<open>self.selmgr.pathlen\<close>.
\<close>

record 't handler =
  handler_class :: handler_class
  circuits :: "(int \<times> cref) list"
  streams :: "(int \<times> sref) list"
  circuit_at :: "cref \<Rightarrow> 't Circuit"
  stream_at :: "sref \<Rightarrow> 't Stream"
  next_cref :: nat
  next_sref :: nat
  new_nym :: bool
  resolve_port :: int
  num_circuits :: int
  sel_pathlen :: int
  last_exit :: "Router option"
  tor_pos :: nat

definition upd_circuit :: "'t handler \<Rightarrow> cref \<Rightarrow> ('t Circuit \<Rightarrow> 't Circuit) \<Rightarrow> 't handler" where
  "upd_circuit h c f = h \<lparr> circuit_at := (circuit_at h)(c := f (circuit_at h c)) \<rparr>"

definition upd_stream :: "'t handler \<Rightarrow> sref \<Rightarrow> ('t Stream \<Rightarrow> 't Stream) \<Rightarrow> 't handler" where
  "upd_stream h s f = h \<lparr> stream_at := (stream_at h)(s := f (stream_at h s)) \<rparr>"

text \<open>\<open>Circuit()\<close> and \<open>Stream(sid, host, port, kind)\<close>.\<close>

definition Circuit_init :: "'t \<Rightarrow> 't Circuit" where
  "Circuit_init now =
     \<lparr> circ_id = 0, circ_path = [], circ_exit = None, built = False, dirty = False,
       closed = False, detached_cnt = 0, last_extended_at = now, extend_times = [],
       setup_duration = None, pending_streams = [] \<rparr>"

definition Stream_init :: "int \<Rightarrow> ipaddr \<Rightarrow> int \<Rightarrow> string \<Rightarrow> ('t::zero) Stream" where
  "Stream_init sid h p k =
     \<lparr> strm_id = sid, detached_from = [], pending_circ = None, strm_circ = None,
       strm_host = h, strm_port = p, kind = k, attached_at = 0, bytes_read = 0,
       bytes_written = 0, failed = False \<rparr>"

text \<open>
  The result of a method: the exception that left it, if any, and the handler
  afterwards; \<open>None\<close> stands for a method that does not return within the bound on its
  loops.
\<close>

type_synonym 't result = "(py_error option \<times> 't handler) option"

text \<open>
  \<open>Connection.build_circuit\<close> of PathSupport.py: a new \<open>Circuit\<close> with the path, its
  exit \<open>path[pathlen-1]\<close> and the circuit id.
\<close>

definition Connection_build_circuit ::
  "'t tor \<Rightarrow> 't handler \<Rightarrow> ((py_error + cref) \<times> 't handler) option" where
  "Connection_build_circuit tor h =
     (let h1 = h \<lparr> tor_pos := Suc (tor_pos h) \<rparr> in
      case build_reply tor (tor_pos h) of
        BuildDiverges \<Rightarrow> None
      | BuildRaises e \<Rightarrow> Some (Inl e, h1)
      | BuildErrorReply \<Rightarrow> Some (Inl ErrorReply, h1)
      | Built p cid now \<Rightarrow>
          (case py_get p (sel_pathlen h - 1) of
             Inl e \<Rightarrow> Some (Inl e, h1)
           | Inr x \<Rightarrow>
               Some (Inr (next_cref h),
                 h1 \<lparr> circuit_at := (circuit_at h)(next_cref h :=
                         (Circuit_init now) \<lparr> circ_path := p, circ_exit := Some x,
                            circ_id := cid \<rparr>),
                      next_cref := Suc (next_cref h) \<rparr>)))"

text \<open>
  The loop \<open>while circ == None\<close> around it, in \<open>PathBuilder.attach_stream_any\<close> and in
  \<open>CircuitHandler.build_circuit\<close>: an \<open>ErrorReply\<close> is logged and the build is tried
  again.
\<close>

fun build_retry ::
  "nat \<Rightarrow> 't tor \<Rightarrow> 't handler \<Rightarrow> ((py_error + cref) \<times> 't handler) option" where
  "build_retry 0 tor h = None"
| "build_retry (Suc n) tor h =
     (case Connection_build_circuit tor h of
        None \<Rightarrow> None
      | Some (Inl e, h') \<Rightarrow> (if e = ErrorReply then build_retry n tor h' else Some (Inl e, h'))
      | Some (Inr c, h') \<Rightarrow> Some (Inr c, h'))"

text \<open>\<open>self.circuits[circ.circ_id] = circ\<close>\<close>

definition register_circuit :: "'t handler \<Rightarrow> cref \<Rightarrow> 't handler" where
  "register_circuit h c =
     h \<lparr> circuits := AList.update (circ_id (circuit_at h c)) c (circuits h) \<rparr>"

text \<open>
  \<open>CircuitHandler.build_circuit\<close> and \<open>check_circuit_pool\<close>, which builds
  \<open>num_circuits - len(circuits)\<close> circuits.
\<close>

definition build_circuit ::
  "nat \<Rightarrow> 't tor \<Rightarrow> 't handler \<Rightarrow> ((py_error + cref) \<times> 't handler) option" where
  "build_circuit n tor h =
     (case build_retry n tor h of
        None \<Rightarrow> None
      | Some (Inl e, h') \<Rightarrow> Some (Inl e, h')
      | Some (Inr c, h') \<Rightarrow> Some (Inr c, register_circuit h' c))"

fun pool_loop :: "nat \<Rightarrow> 't tor \<Rightarrow> nat \<Rightarrow> 't handler \<Rightarrow> 't result" where
  "pool_loop n tor 0 h = Some (None, h)"
| "pool_loop n tor (Suc k) h =
     (case build_circuit n tor h of
        None \<Rightarrow> None
      | Some (Inl e, h') \<Rightarrow> Some (Some e, h')
      | Some (Inr c, h') \<Rightarrow> pool_loop n tor k h')"

definition check_circuit_pool :: "nat \<Rightarrow> 't tor \<Rightarrow> 't handler \<Rightarrow> 't result" where
  "check_circuit_pool n tor h =
     pool_loop n tor (nat (num_circuits h - int (length (circuits h)))) h"

text \<open>
  The new-nym loop of \<open>attach_stream_any\<close> over \<open>self.circuits.keys()\<close>; the loop does
  not change the dictionary, so it runs over the circuits of its entries. A circuit
  that is not dirty and has pending streams hands them to \<open>unattached_streams\<close> and its
  list is emptied; every circuit is marked dirty.
\<close>

fun new_nym_loop :: "'t handler \<Rightarrow> cref list \<Rightarrow> sref list \<Rightarrow> 't handler \<times> sref list" where
  "new_nym_loop h [] un = (h, un)"
| "new_nym_loop h (c # cs) un =
     (let circ = circuit_at h c in
      if \<not> dirty circ \<and> length (pending_streams circ) \<noteq> 0 then
        new_nym_loop (upd_circuit h c (\<lambda>x. x \<lparr> pending_streams := [], dirty := True \<rparr>)) cs
          (un @ pending_streams circ)
      else new_nym_loop (upd_circuit h c (\<lambda>x. x \<lparr> dirty := True \<rparr>)) cs un)"

text \<open>
  The loop over the circuits that looks for one to attach the stream to. The test of
  \<open>StreamHandler.attach_stream_any\<close> has \<open>not circ.closed\<close> in addition; its
  \<open>sorted_circs\<close> is \<open>None\<close>, as the constructor leaves it.
\<close>

datatype find_result = Found cref | AttachRefused | NotFound | FindRaised py_error

fun find_circuit ::
  "'t tor \<Rightarrow> 't handler \<Rightarrow> sref \<Rightarrow> int list \<Rightarrow> cref list \<Rightarrow> find_result \<times> 't handler" where
  "find_circuit tor h s badcircs [] = (NotFound, h)"
| "find_circuit tor h s badcircs (c # cs) =
     (let circ = circuit_at h c in
      if built circ \<and> \<not> dirty circ \<and> circ_id circ \<notin> set badcircs \<and>
         (handler_class h = StreamHandler \<longrightarrow> \<not> closed circ)
      then
        (case circ_exit circ of
           None \<Rightarrow> (FindRaised AttributeError, h)
         | Some x \<Rightarrow>
             if will_exit_to x (strm_host (stream_at h s)) (strm_port (stream_at h s)) then
               (let h1 = h \<lparr> tor_pos := Suc (tor_pos h) \<rparr> in
                if attach_reply tor (tor_pos h) then
                  (Found c,
                   upd_circuit (upd_stream h1 s (\<lambda>x. x \<lparr> pending_circ := Some c \<rparr>)) c
                     (\<lambda>x. x \<lparr> pending_streams := pending_streams x @ [s] \<rparr>))
                else (AttachRefused, h1))
             else find_circuit tor h s badcircs cs)
      else find_circuit tor h s badcircs cs)"

text \<open>\<open>for u in unattached_streams: u.pending_circ = circ\<close>\<close>

fun set_pending_circ :: "'t handler \<Rightarrow> sref list \<Rightarrow> cref \<Rightarrow> 't handler" where
  "set_pending_circ h [] c = h"
| "set_pending_circ h (u # us) c =
     set_pending_circ (upd_stream h u (\<lambda>x. x \<lparr> pending_circ := Some c \<rparr>)) us c"

text \<open>
  \<open>attach_stream_any\<close> of \<open>PathBuilder\<close> and of \<open>StreamHandler\<close> (with
  \<open>create_and_attach\<close>). The two differ in the test above and in their log lines;
  both set \<open>last_exit\<close> when a circuit was found or built, and return without it when
  the ATTACHSTREAM was refused.
\<close>

definition attach_stream_any ::
  "nat \<Rightarrow> 't tor \<Rightarrow> 't handler \<Rightarrow> sref \<Rightarrow> int list \<Rightarrow> 't result" where
  "attach_stream_any n tor h s badcircs =
     (let (h1, unattached_streams) =
            (if new_nym h then new_nym_loop (h \<lparr> new_nym := False \<rparr>) (map snd (circuits h)) [s]
             else (h, [s])) in
      case find_circuit tor h1 s badcircs (map snd (circuits h1)) of
        (Found c, h2) \<Rightarrow> Some (None, h2 \<lparr> last_exit := circ_exit (circuit_at h2 c) \<rparr>)
      | (AttachRefused, h2) \<Rightarrow> Some (None, h2)
      | (FindRaised e, h2) \<Rightarrow> Some (Some e, h2)
      | (NotFound, h2) \<Rightarrow>
          (case build_retry n tor h2 of
             None \<Rightarrow> None
           | Some (Inl e, h3) \<Rightarrow> Some (Some e, h3)
           | Some (Inr c, h3) \<Rightarrow>
               (let h4 = set_pending_circ h3 unattached_streams c;
                    h5 = upd_circuit h4 c
                           (\<lambda>x. x \<lparr> pending_streams := pending_streams x @ unattached_streams \<rparr>);
                    h6 = register_circuit h5 c
                in Some (None, h6 \<lparr> last_exit := circ_exit (circuit_at h6 c) \<rparr>))))"

text \<open>
  The loop \<open>for stream in circ.pending_streams: self.attach_stream_any(stream,
  stream.detached_from)\<close> of the FAILED and CLOSED branch.
\<close>

fun reattach :: "nat \<Rightarrow> 't tor \<Rightarrow> 't handler \<Rightarrow> sref list \<Rightarrow> 't result" where
  "reattach n tor h [] = Some (None, h)"
| "reattach n tor h (s # ss) =
     (case attach_stream_any n tor h s (detached_from (stream_at h s)) of
        None \<Rightarrow> None
      | Some (Some e, h') \<Rightarrow> Some (Some e, h')
      | Some (None, h') \<Rightarrow> reattach n tor h' ss)"

text \<open>
  The ATTACHSTREAM commands of the BUILT branch. \<open>PathBuilder\<close> has one \<open>try\<close> around
  the loop and returns at the first \<open>ErrorReply\<close>; \<open>CircuitHandler\<close> has the \<open>try\<close>
  inside the loop and goes on.
\<close>

fun attach_pending_PathBuilder :: "'t tor \<Rightarrow> 't handler \<Rightarrow> sref list \<Rightarrow> 't handler" where
  "attach_pending_PathBuilder tor h [] = h"
| "attach_pending_PathBuilder tor h (s # ss) =
     (if attach_reply tor (tor_pos h)
      then attach_pending_PathBuilder tor (h \<lparr> tor_pos := Suc (tor_pos h) \<rparr>) ss
      else h \<lparr> tor_pos := Suc (tor_pos h) \<rparr>)"

fun attach_pending_CircuitHandler :: "'t tor \<Rightarrow> 't handler \<Rightarrow> sref list \<Rightarrow> 't handler" where
  "attach_pending_CircuitHandler tor h [] = h"
| "attach_pending_CircuitHandler tor h (s # ss) =
     attach_pending_CircuitHandler tor (h \<lparr> tor_pos := Suc (tor_pos h) \<rparr>) ss"

record 't CircuitEvent =
  ev_circ_id :: int
  ev_status :: string
  ev_arrived_at :: 't

definition PathBuilder_circ_status_event ::
  "nat \<Rightarrow> 't tor \<Rightarrow> 't handler \<Rightarrow> 't CircuitEvent \<Rightarrow> 't result" where
  "PathBuilder_circ_status_event n tor h c =
     (case map_of (circuits h) (ev_circ_id c) of
        None \<Rightarrow> Some (None, h)
      | Some cr \<Rightarrow>
          if ev_status c = ''EXTENDED'' then
            Some (None, upd_circuit h cr (\<lambda>x. x \<lparr> last_extended_at := ev_arrived_at c \<rparr>))
          else if ev_status c = ''FAILED'' \<or> ev_status c = ''CLOSED'' then
            reattach n tor (h \<lparr> circuits := AList.delete (ev_circ_id c) (circuits h) \<rparr>)
              (pending_streams (circuit_at h cr))
          else if ev_status c = ''BUILT'' then
            (let h1 = upd_circuit h cr (\<lambda>x. x \<lparr> built := True \<rparr>) in
             Some (None, attach_pending_PathBuilder tor h1 (pending_streams (circuit_at h1 cr))))
          else Some (None, h))"

definition CircuitHandler_circ_status_event ::
  "nat \<Rightarrow> ('t::{plus,minus,zero}) tor \<Rightarrow> 't handler \<Rightarrow> 't CircuitEvent \<Rightarrow> 't result" where
  "CircuitHandler_circ_status_event n tor h c =
     (case map_of (circuits h) (ev_circ_id c) of
        None \<Rightarrow> Some (None, h)
      | Some cr \<Rightarrow>
          if ev_status c = ''EXTENDED'' then
            (let extend_time = ev_arrived_at c - last_extended_at (circuit_at h cr);
                 h1 = upd_circuit h cr (\<lambda>x. x \<lparr> extend_times := extend_times x @ [extend_time] \<rparr>)
             in Some (None, upd_circuit h1 cr (\<lambda>x. x \<lparr> last_extended_at := ev_arrived_at c \<rparr>)))
          else if ev_status c = ''FAILED'' \<or> ev_status c = ''CLOSED'' then
            (case reattach n tor (h \<lparr> circuits := AList.delete (ev_circ_id c) (circuits h) \<rparr>)
                    (pending_streams (circuit_at h cr)) of
               None \<Rightarrow> None
             | Some (Some e, h') \<Rightarrow> Some (Some e, h')
             | Some (None, h') \<Rightarrow> check_circuit_pool n tor h')
          else if ev_status c = ''BUILT'' then
            (let h1 = upd_circuit h cr (\<lambda>x. x \<lparr> built := True \<rparr>);
                 h2 = attach_pending_CircuitHandler tor h1 (pending_streams (circuit_at h1 cr));
                 duration = foldl (+) 0 (extend_times (circuit_at h2 cr))
             in Some (None, upd_circuit h2 cr (\<lambda>x. x \<lparr> setup_duration := Some duration \<rparr>)))
          else Some (None, h))"

text \<open>The method that the class of the handler object selects.\<close>

definition circ_status_event ::
  "nat \<Rightarrow> ('t::{plus,minus,zero}) tor \<Rightarrow> 't handler \<Rightarrow> 't CircuitEvent \<Rightarrow> 't result" where
  "circ_status_event n tor h c =
     (if handler_class h = PathBuilder then PathBuilder_circ_status_event n tor h c
      else CircuitHandler_circ_status_event n tor h c)"

text \<open>
  A stream event. \<open>sev_target_host\<close> is \<open>None\<close> when the host does not match the
  pattern of an address; the handlers then use 255.255.255.255.
\<close>

record 't StreamEvent =
  sev_strm_id :: int
  sev_status :: string
  sev_circ_id :: int
  sev_target_host :: "ipaddr option"
  sev_target_port :: int
  sev_arrived_at :: 't

definition new_stream :: "('t::zero) handler \<Rightarrow> int \<Rightarrow> ipaddr \<Rightarrow> int \<Rightarrow> string \<Rightarrow> 't handler" where
  "new_stream h sid a p k =
     h \<lparr> stream_at := (stream_at h)(next_sref h := Stream_init sid a p k),
         streams := AList.update sid (next_sref h) (streams h),
         next_sref := Suc (next_sref h) \<rparr>"

text \<open>
  \<open>xs.remove(x)\<close> on the pending list of a circuit object, and the attribute access
  \<open>stream.pending_circ.pending_streams\<close>, which raises AttributeError when
  \<open>pending_circ\<close> is \<open>None\<close>.
\<close>

definition remove_pending :: "'t handler \<Rightarrow> sref \<Rightarrow> cref \<Rightarrow> py_error + 't handler" where
  "remove_pending h s c =
     (case py_remove (pending_streams (circuit_at h c)) s of
        Inl e \<Rightarrow> Inl e
      | Inr l \<Rightarrow> Inr (upd_circuit h c (\<lambda>x. x \<lparr> pending_streams := l \<rparr>)))"

text \<open>
  \<open>stream_status_event\<close> of \<open>PathBuilder\<close> and of \<open>StreamHandler\<close>: the two methods
  differ in their log lines only.
\<close>

definition stream_status_event ::
  "nat \<Rightarrow> ('t::zero) tor \<Rightarrow> 't handler \<Rightarrow> 't StreamEvent \<Rightarrow> 't result" where
  "stream_status_event n tor h s =
     (let target_host = (case sev_target_host s of None \<Rightarrow> dotted 255 255 255 255 | Some a \<Rightarrow> a);
          sid = sev_strm_id s in
      if sev_status s = ''NEW'' \<or> sev_status s = ''NEWRESOLVE'' then
        (let target_port = (if sev_status s = ''NEWRESOLVE'' \<and> sev_target_port s = 0
                            then resolve_port h else sev_target_port s);
             h1 = new_stream h sid target_host target_port (sev_status s)
         in attach_stream_any n tor h1 (next_sref h) [])
      else if sev_status s = ''DETACHED'' then
        (let (h1, st) = (case map_of (streams h) sid of
                           None \<Rightarrow> (new_stream h sid target_host (sev_target_port s) ''NEW'',
                                     next_sref h)
                         | Some st' \<Rightarrow> (h, st'));
             h2 = (if sev_circ_id s = 0 then h1
                   else upd_stream h1 st
                          (\<lambda>x. x \<lparr> detached_from := detached_from x @ [sev_circ_id s] \<rparr>))
         in case pending_circ (stream_at h2 st) of
              None \<Rightarrow> Some (Some AttributeError, h2)
            | Some pc \<Rightarrow>
                (let h3 = (if st \<in> set (pending_streams (circuit_at h2 pc))
                           then upd_circuit h2 pc
                                  (\<lambda>x. x \<lparr> pending_streams := remove1 st (pending_streams x) \<rparr>)
                           else h2);
                     h4 = upd_stream h3 st (\<lambda>x. x \<lparr> pending_circ := None \<rparr>)
                 in attach_stream_any n tor h4 st (detached_from (stream_at h4 st))))
      else if sev_status s = ''SUCCEEDED'' then
        (case map_of (streams h) sid of
           None \<Rightarrow> Some (None, h)
         | Some st \<Rightarrow>
             (case pending_circ (stream_at h st) of
                None \<Rightarrow>
                  (if sev_circ_id s \<noteq> 0 then Some (Some AttributeError, h)
                   else Some (Some AttributeError,
                          upd_stream h st (\<lambda>x. x \<lparr> strm_circ := None \<rparr>)))
              | Some pc \<Rightarrow>
                  (if sev_circ_id s \<noteq> 0 \<and> circ_id (circuit_at h pc) \<noteq> sev_circ_id s then
                     (case map_of (circuits h) (sev_circ_id s) of
                        None \<Rightarrow> Some (Some KeyError, h)
                      | Some c' \<Rightarrow>
                          (case remove_pending (upd_stream h st (\<lambda>x. x \<lparr> strm_circ := Some c' \<rparr>))
                                  st pc of
                             Inl e \<Rightarrow>
                               Some (Some e, upd_stream h st (\<lambda>x. x \<lparr> strm_circ := Some c' \<rparr>))
                           | Inr h1 \<Rightarrow>
                               Some (None, upd_stream h1 st
                                 (\<lambda>x. x \<lparr> pending_circ := None,
                                          attached_at := sev_arrived_at s \<rparr>))))
                   else
                     (case remove_pending (upd_stream h st (\<lambda>x. x \<lparr> strm_circ := Some pc \<rparr>))
                             st pc of
                        Inl e \<Rightarrow>
                          Some (Some e, upd_stream h st (\<lambda>x. x \<lparr> strm_circ := Some pc \<rparr>))
                      | Inr h1 \<Rightarrow>
                          Some (None, upd_stream h1 st
                            (\<lambda>x. x \<lparr> pending_circ := None,
                                     attached_at := sev_arrived_at s \<rparr>))))))
      else if sev_status s = ''FAILED'' \<or> sev_status s = ''CLOSED'' then
        (case map_of (streams h) sid of
           None \<Rightarrow> Some (None, h)
         | Some st \<Rightarrow>
             if sev_status s = ''FAILED'' then
               (let h1 = upd_stream h st (\<lambda>x. x \<lparr> failed := True \<rparr>) in
                case map_of (circuits h1) (sev_circ_id s) of
                  None \<Rightarrow> Some (None, h1)
                | Some c \<Rightarrow> Some (None, upd_circuit h1 c (\<lambda>x. x \<lparr> dirty := True \<rparr>)))
             else
               (case pending_circ (stream_at h st) of
                  None \<Rightarrow> Some (None, h \<lparr> streams := AList.delete sid (streams h) \<rparr>)
                | Some pc \<Rightarrow>
                    (case remove_pending h st pc of
                       Inl e \<Rightarrow> Some (Some e, h)
                     | Inr h1 \<Rightarrow> Some (None, h1 \<lparr> streams := AList.delete sid (streams h1) \<rparr>))))
      else if sev_status s = ''REMAP'' then
        (case map_of (streams h) sid of
           None \<Rightarrow> Some (None, h)
         | Some st \<Rightarrow>
             Some (None, upd_stream h st
               (\<lambda>x. x \<lparr> strm_host := target_host, strm_port := sev_target_port s \<rparr>)))
      else Some (None, h))"

text \<open>
  The events of a run: circuit events, stream events, and a job that sets
  \<open>self.new_nym\<close>. The event loop of TorCtl.py ends at the first exception that leaves
  a handler.
\<close>

datatype 't event = CircEvent "'t CircuitEvent" | StreamEvent "'t StreamEvent" | NewNym

definition handle_event ::
  "nat \<Rightarrow> ('t::{plus,minus,zero}) tor \<Rightarrow> 't handler \<Rightarrow> 't event \<Rightarrow> 't result" where
  "handle_event n tor h e =
     (case e of
        CircEvent c \<Rightarrow> circ_status_event n tor h c
      | StreamEvent s \<Rightarrow> stream_status_event n tor h s
      | NewNym \<Rightarrow> Some (None, h \<lparr> new_nym := True \<rparr>))"

fun run :: "nat \<Rightarrow> ('t::{plus,minus,zero}) tor \<Rightarrow> 't handler \<Rightarrow> 't event list \<Rightarrow> 't result" where
  "run n tor h [] = Some (None, h)"
| "run n tor h (e # es) =
     (case handle_event n tor h e of
        None \<Rightarrow> None
      | Some (Some err, h') \<Rightarrow> Some (Some err, h')
      | Some (None, h') \<Rightarrow> run n tor h' es)"

text \<open>
  The handler after its constructor: empty dictionaries; \<open>CircuitHandler.__init__\<close>
  sets \<open>num_circuits\<close> and calls \<open>check_circuit_pool\<close>.
\<close>

definition handler0 :: "handler_class \<Rightarrow> int \<Rightarrow> ('t::zero) handler" where
  "handler0 cls plen =
     \<lparr> handler_class = cls, circuits = [], streams = [],
       circuit_at = (\<lambda>_. Circuit_init 0), stream_at = (\<lambda>_. Stream_init 0 0 0 []),
       next_cref = 0, next_sref = 0, new_nym = False, resolve_port = 0, num_circuits = 1,
       sel_pathlen = plen, last_exit = None, tor_pos = 0 \<rparr>"

definition handler_init ::
  "nat \<Rightarrow> ('t::zero) tor \<Rightarrow> handler_class \<Rightarrow> int \<Rightarrow> int \<Rightarrow> 't result" where
  "handler_init n tor cls plen ncirc =
     (if cls = PathBuilder then Some (None, handler0 cls plen)
      else check_circuit_pool n tor ((handler0 cls plen) \<lparr> num_circuits := ncirc \<rparr>))"

text \<open>
  The circuits of the dictionary, and the invariant of the handlers: every circuit of
  the dictionary is stored under its own id; its pending list has no stream twice; and
  a stream in the pending list of a circuit of the dictionary has that circuit as its
  \<open>pending_circ\<close>. Addresses in use lie below the next free ones.
\<close>

definition tracked :: "'t handler \<Rightarrow> cref set" where
  "tracked h = snd ` set (circuits h)"

definition handler_inv :: "'t handler \<Rightarrow> bool" where
  "handler_inv h =
     ((\<forall>(k, c) \<in> set (circuits h). c < next_cref h \<and> circ_id (circuit_at h c) = k) \<and>
      (\<forall>(k, s) \<in> set (streams h). s < next_sref h) \<and>
      (\<forall>c \<in> tracked h. distinct (pending_streams (circuit_at h c)) \<and>
         (\<forall>s \<in> set (pending_streams (circuit_at h c)).
            s < next_sref h \<and> pending_circ (stream_at h s) = Some c)))"

section \<open>Inputs of the scenarios\<close>

text \<open>A sequence of draws: the draw at position \<open>k\<close> is \<open>k\<close>.\<close>

definition count_up :: "nat \<Rightarrow> nat" where
  "count_up k = k"

definition router_a :: Router where
  "router_a = router_at ''a'' (dotted 1 1 1 1)"

definition router_b :: Router where
  "router_b = router_at ''b'' (dotted 2 2 2 2)"

definition router_c :: Router where
  "router_c = router_at ''c'' (dotted 3 3 3 3)"

definition routers_abc :: "Router list" where
  "routers_abc = [router_a, router_b, router_c]"

text \<open>
  Uniform entry and middle generators and an ordered exit generator over the same three
  routers: every router may be an entry, only router b may be a middle hop, and no router
  passes the exit restriction.
\<close>

definition selector_retry :: PathSelector where
  "selector_retry =
     \<lparr> entry_gen = UniformGenerator_init routers_abc [],
       mid_gen = UniformGenerator_init routers_abc [NickRestriction ''b''],
       exit_gen = OrderedExitGenerator_init 80 routers_abc [NickRestriction ''nobody''],
       path_restrict = [UniqueRestriction] \<rparr>"












definition fuel5 :: nat where
  "fuel5 = Suc (Suc (Suc (Suc (Suc 0))))"



section \<open>Properties of the exit policy and of the restrictions\<close>

lemma will_exit_to_loop_first_match:
  "\<forall>l'\<in>set pre. check l' a p = MinusOne \<Longrightarrow> check l a p = Ret b \<Longrightarrow>
   will_exit_to_loop (pre @ l # post) a p = Some b"
  by (induction pre) auto

lemma will_exit_to_loop_None:
  "(will_exit_to_loop ls a p = None) = (\<forall>l\<in>set ls. check l a p = MinusOne)"
  by (induction ls) (auto split: check_ret.splits)

lemma check_Ret_match: "check l a p = Ret b \<Longrightarrow> b = line_match l"
  by (auto simp: check_def Let_def split: if_splits)

lemma policy_example_1_2_3_4_80:
  "will_exit_to_log (router0\<lparr>exitpolicy := policy_example\<rparr>) (dotted 1 2 3 4) 80 = (False, [])"
  by (simp add: will_exit_to_log_def policy_example_def ExitPolicyLine_init_def check_def
      dotted_def inet_aton_I_def)

lemma policy_example_9_9_9_9_80:
  "will_exit_to_log (router0\<lparr>exitpolicy := policy_example\<rparr>) (dotted 9 9 9 9) 80 = (True, [])"
  by (simp add: will_exit_to_log_def policy_example_def ExitPolicyLine_init_def check_def
      dotted_def inet_aton_I_def)

lemma policy_example_9_9_9_9_443:
  "will_exit_to_log (router0\<lparr>exitpolicy := policy_example\<rparr>) (dotted 9 9 9 9) 443 = (False, [])"
  by (simp add: will_exit_to_log_def policy_example_def ExitPolicyLine_init_def check_def
      dotted_def inet_aton_I_def)

text \<open>
  C3. \<open>Router.will_exit_to\<close> is first-match-wins: when a line matches the query and no
  line before it does, the result is that line's accept/reject value and nothing is
  logged; the result is \<open>False\<close> with the warning logged exactly when no line of the
  whole list matches; a line with \<open>ip = 0\<close> and \<open>netmask = 0\<close> matches every address
  (within its port range). On the policy \<open>[reject 1.2.3.0/24:*, accept *:80, reject *:*]\<close>
  the query (1.2.3.4, 80) is denied, (9.9.9.9, 80) is allowed and (9.9.9.9, 443) is
  denied, each by a matching line.
\<close>

theorem will_exit_to_first_match_wins:
  "(\<forall>pre l post. exitpolicy r = pre @ l # post \<longrightarrow>
       (\<forall>l'\<in>set pre. check l' a p = MinusOne) \<longrightarrow> check l a p \<noteq> MinusOne \<longrightarrow>
       will_exit_to_log r a p = (line_match l, []) \<and> will_exit_to r a p = line_match l)
   \<and> ((\<forall>l\<in>set (exitpolicy r). check l a p = MinusOne) \<longleftrightarrow>
        will_exit_to_log r a p = (False, [(''WARN'', ''No matching exit line for '' @ nickname r)]))
   \<and> (\<forall>l. line_ip l = 0 \<and> line_netmask l = 0 \<and> line_port_low l \<le> p \<and> p \<le> line_port_high l
        \<longrightarrow> check l a p = Ret (line_match l))
   \<and> will_exit_to_log (router0\<lparr>exitpolicy := policy_example\<rparr>) (dotted 1 2 3 4) 80 = (False, [])
   \<and> will_exit_to_log (router0\<lparr>exitpolicy := policy_example\<rparr>) (dotted 9 9 9 9) 80 = (True, [])
   \<and> will_exit_to_log (router0\<lparr>exitpolicy := policy_example\<rparr>) (dotted 9 9 9 9) 443 = (False, [])"
proof -
  have first: "will_exit_to_log r a p = (line_match l, []) \<and> will_exit_to r a p = line_match l"
    if "exitpolicy r = pre @ l # post" "\<forall>l'\<in>set pre. check l' a p = MinusOne"
       "check l a p \<noteq> MinusOne" for pre l post
  proof -
    from that(3) obtain b where b: "check l a p = Ret b" by (cases "check l a p") auto
    then have "b = line_match l" by (rule check_Ret_match)
    with will_exit_to_loop_first_match [OF that(2) b, of post] that(1)
    show ?thesis by (simp add: will_exit_to_log_def will_exit_to_def)
  qed
  have none: "(\<forall>l\<in>set (exitpolicy r). check l a p = MinusOne) \<longleftrightarrow>
        will_exit_to_log r a p = (False, [(''WARN'', ''No matching exit line for '' @ nickname r)])"
    using will_exit_to_loop_None [of "exitpolicy r" a p]
    by (auto simp: will_exit_to_log_def split: option.splits)
  have wild: "check l a p = Ret (line_match l)"
    if "line_ip l = 0 \<and> line_netmask l = 0 \<and> line_port_low l \<le> p \<and> p \<le> line_port_high l" for l
    using that by (simp add: check_def)
  from first none wild policy_example_1_2_3_4_80 policy_example_9_9_9_9_80
    policy_example_9_9_9_9_443
  show ?thesis by blast
qed

theorem will_exit_to_first_match_wins_witness:
  "will_exit_to_log (router0\<lparr>exitpolicy := policy_example\<rparr>) (dotted 9 9 9 9) 80
     = (line_match (policy_example ! 1), [])
   \<and> check (policy_example ! 0) (dotted 9 9 9 9) 80 = MinusOne
   \<and> check (policy_example ! 1) (dotted 9 9 9 9) 80 = Ret True"
proof -
  let ?r = "router0\<lparr>exitpolicy := policy_example\<rparr>"
  have d: "exitpolicy ?r = [policy_example ! 0] @ (policy_example ! 1) # [policy_example ! 2]"
    by (simp add: policy_example_def)
  have h1: "check (policy_example ! 0) (dotted 9 9 9 9) 80 = MinusOne"
    by (simp add: policy_example_def ExitPolicyLine_init_def check_def dotted_def inet_aton_I_def)
  have h2: "check (policy_example ! 1) (dotted 9 9 9 9) 80 = Ret True"
    by (simp add: policy_example_def ExitPolicyLine_init_def check_def dotted_def inet_aton_I_def)
  from h1 have h1': "\<forall>l'\<in>set [policy_example ! 0]. check l' (dotted 9 9 9 9) 80 = MinusOne"
    by simp
  from h2 have h2': "check (policy_example ! 1) (dotted 9 9 9 9) 80 \<noteq> MinusOne" by simp
  from will_exit_to_first_match_wins [of ?r "dotted 9 9 9 9" 80] d h1' h2'
  have "will_exit_to_log ?r (dotted 9 9 9 9) 80 = (line_match (policy_example ! 1), [])"
    by blast
  with h1 h2 show ?thesis by simp
qed

text \<open>
  C4. \<open>Subnet16Restriction.path_is_ok\<close> compares the first hop with each later hop and
  compares no other pair: the three-hop path 1.2.3.4, 5.6.7.8, 5.6.9.9 is accepted
  although its second and third hops share their upper 16 bits.
\<close>

theorem Subnet16Restriction_accepts_shared_later_pair:
  "path_is_ok Subnet16Restriction subnet16_path3 = Inr True \<and>
   (ip (subnet16_path3 ! 1) AND mask16) = (ip (subnet16_path3 ! 2) AND mask16)"
  by (simp add: subnet16_path3_def router_at_def router0_def mask16_def dotted_def
      inet_aton_I_def)

lemma Subnet16Restriction_two_hops:
  "path_is_ok Subnet16Restriction [a, b] = Inr ((ip a AND mask16) \<noteq> (ip b AND mask16))"
  by simp

lemma Subnet16Restriction_first_hop_only:
  "path_is_ok Subnet16Restriction (a # rest) =
     Inr (\<forall>r\<in>set rest. (ip a AND mask16) \<noteq> (ip r AND mask16))"
  by (simp add: list_all_iff)

lemma del_restriction_count:
  "\<not> P r \<Longrightarrow> count_list (filter (\<lambda>r. \<not> P r) L) r = count_list L r"
  by (induction L) auto

text \<open>
  C9. After \<open>del_restriction(K)\<close> on a node or path restriction list, no top-level
  element is an instance of \<open>K\<close> (in the sense of \<open>isinstance\<close>, which follows
  subclassing); the result is a subsequence of the list that keeps every element that is
  not an instance of \<open>K\<close>, as often as it occurred; and a composite restriction that is
  not itself an instance of \<open>K\<close> stays in the list with the restrictions nested in it,
  whatever their classes: removing \<open>NickRestriction\<close> from the example list leaves the
  \<open>OrNodeRestriction\<close> and the \<open>NotNodeRestriction\<close> that hold a nested
  \<open>NickRestriction\<close>.
\<close>

theorem del_restriction_top_level_only:
  "(\<forall>r\<in>set (NodeRestrictionList_del_restriction L K). \<not> isinstance_node r K)
   \<and> subseq (NodeRestrictionList_del_restriction L K) L
   \<and> (\<forall>r. \<not> isinstance_node r K \<longrightarrow>
         count_list (NodeRestrictionList_del_restriction L K) r = count_list L r)
   \<and> (\<forall>c\<in>set L. \<not> isinstance_node c K \<longrightarrow> (\<exists>n\<in>set (nested c). isinstance_node n K) \<longrightarrow>
         c \<in> set (NodeRestrictionList_del_restriction L K))
   \<and> (\<forall>r\<in>set (PathRestrictionList_del_restriction M K). \<not> isinstance_path r K)
   \<and> subseq (PathRestrictionList_del_restriction M K) M
   \<and> (\<forall>r. \<not> isinstance_path r K \<longrightarrow>
         count_list (PathRestrictionList_del_restriction M K) r = count_list M r)
   \<and> NodeRestrictionList_del_restriction nested_example K_NickRestriction =
       [OrNodeRestriction [NickRestriction ''a'', FlagsRestriction [''Guard''] []],
        ConserveExitsRestriction, NotNodeRestriction (NickRestriction ''c'')]"
proof -
  have ex: "NodeRestrictionList_del_restriction nested_example K_NickRestriction =
       [OrNodeRestriction [NickRestriction ''a'', FlagsRestriction [''Guard''] []],
        ConserveExitsRestriction, NotNodeRestriction (NickRestriction ''c'')]"
    by (simp add: NodeRestrictionList_del_restriction_def nested_example_def
        isinstance_node_def issubclass_def)
  have n3: "count_list (NodeRestrictionList_del_restriction L K) r = count_list L r"
    if "\<not> isinstance_node r K" for r
    unfolding NodeRestrictionList_del_restriction_def
    using that by (rule del_restriction_count [where P = "\<lambda>r. isinstance_node r K"])
  have p3: "count_list (PathRestrictionList_del_restriction M K) r = count_list M r"
    if "\<not> isinstance_path r K" for r
    unfolding PathRestrictionList_del_restriction_def
    using that by (rule del_restriction_count [where P = "\<lambda>r. isinstance_path r K"])
  show ?thesis
    using ex n3 p3
    by (simp add: NodeRestrictionList_del_restriction_def
        PathRestrictionList_del_restriction_def)
qed

theorem del_restriction_top_level_only_witness:
  "OrNodeRestriction [NickRestriction ''a'', FlagsRestriction [''Guard''] []]
     \<in> set (NodeRestrictionList_del_restriction nested_example K_NickRestriction)
   \<and> isinstance_node (NickRestriction ''a'') K_NickRestriction
   \<and> NickRestriction ''b'' \<notin> set (NodeRestrictionList_del_restriction nested_example K_NickRestriction)"
proof -
  let ?c = "OrNodeRestriction [NickRestriction ''a'', FlagsRestriction [''Guard''] []]"
  have a: "?c \<in> set nested_example" by (simp add: nested_example_def)
  have b: "\<not> isinstance_node ?c K_NickRestriction"
    by (simp add: isinstance_node_def issubclass_def)
  have c: "\<exists>n\<in>set (nested ?c). isinstance_node n K_NickRestriction"
    by (simp add: isinstance_node_def issubclass_def)
  have d: "isinstance_node (NickRestriction ''b'') K_NickRestriction"
    by (simp add: isinstance_node_def issubclass_def)
  from del_restriction_top_level_only [of nested_example K_NickRestriction "[]"] a b c
  have 1: "?c \<in> set (NodeRestrictionList_del_restriction nested_example K_NickRestriction)"
    by blast
  from del_restriction_top_level_only [of nested_example K_NickRestriction "[]"] d
  have 2: "NickRestriction ''b'' \<notin> set (NodeRestrictionList_del_restriction nested_example K_NickRestriction)"
    by blast
  from 1 2 show ?thesis by (simp add: isinstance_node_def issubclass_def)
qed

text \<open>
  C10. For a router whose \<open>os\<close> matches no regex of \<open>ok\<close> and none of \<open>bad\<close>,
  \<open>OSRestriction.r_is_ok\<close> returns \<open>False\<close> when \<open>ok\<close> is not empty, \<open>True\<close> when
  \<open>ok\<close> is empty and \<open>bad\<close> is not, and \<open>None\<close> when both are empty; so a
  \<open>NodeRestrictionList\<close> holding \<open>OSRestriction([], [])\<close> rejects every router.
\<close>

theorem OSRestriction_no_match:
  assumes "\<forall>y\<in>set ok. \<not> y (os r)" and "\<forall>b\<in>set bad. \<not> b (os r)"
  shows "(ok \<noteq> [] \<longrightarrow> r_is_ok (OSRestriction ok bad) r = PyBool False)
       \<and> (ok = [] \<and> bad \<noteq> [] \<longrightarrow> r_is_ok (OSRestriction ok bad) r = PyBool True)
       \<and> (ok = [] \<and> bad = [] \<longrightarrow> r_is_ok (OSRestriction ok bad) r = PyNone)
       \<and> r_is_ok (OSRestriction [] []) r' = PyNone
       \<and> \<not> NodeRestrictionList_r_is_ok [OSRestriction [] []] r'
       \<and> (OSRestriction [] [] \<in> set L \<longrightarrow> \<not> NodeRestrictionList_r_is_ok L r')"
proof -
  have 2: "r_is_ok (OSRestriction [] []) r' = PyNone"
    by (simp add: OSRestriction_r_is_ok_def)
  have 3: "\<not> NodeRestrictionList_r_is_ok L r'" if "OSRestriction [] [] \<in> set L" for L
  proof -
    from 2 have "\<not> truthy (r_is_ok (OSRestriction [] []) r')" by simp
    with that show ?thesis
      unfolding NodeRestrictionList_r_is_ok_def list_all_iff by blast
  qed
  have 4: "\<not> NodeRestrictionList_r_is_ok [OSRestriction [] []] r'"
    by (rule 3) simp
  have 5: "ok \<noteq> [] \<longrightarrow> r_is_ok (OSRestriction ok bad) r = PyBool False"
    and 6: "ok = [] \<and> bad \<noteq> [] \<longrightarrow> r_is_ok (OSRestriction ok bad) r = PyBool True"
    and 7: "ok = [] \<and> bad = [] \<longrightarrow> r_is_ok (OSRestriction ok bad) r = PyNone"
    using assms by (auto simp add: OSRestriction_r_is_ok_def list_ex_iff)
  from 2 3 4 5 6 7 show ?thesis by blast
qed

theorem OSRestriction_no_match_witness:
  "r_is_ok (OSRestriction [] [(\<lambda>s. s = ''Windows'')]) (router0\<lparr>os := ''Linux''\<rparr>) = PyBool True
   \<and> \<not> NodeRestrictionList_r_is_ok [NodeRestrictionI, OSRestriction [] []] router0"
proof -
  have a: "\<forall>y\<in>set []. \<not> y (os (router0\<lparr>os := ''Linux''\<rparr>))" by simp
  have b: "\<forall>b\<in>set [(\<lambda>s. s = ''Windows'')]. \<not> b (os (router0\<lparr>os := ''Linux''\<rparr>))" by simp
  have c: "OSRestriction [] [] \<in> set [NodeRestrictionI, OSRestriction [] []]" by simp
  from OSRestriction_no_match [OF a b, of router0 "[NodeRestrictionI, OSRestriction [] []]"] c
  show ?thesis by simp
qed

section \<open>Properties of the path selector\<close>

lemma nick_abc:
  "nickname router_a = ''a''" "nickname router_b = ''b''" "nickname router_c = ''c''"
  by (simp_all add: router_a_def router_b_def router_c_def router_at_def)

lemma distinct_abc:
  "router_a \<noteq> router_b" "router_a \<noteq> router_c" "router_b \<noteq> router_c"
  "router_b \<noteq> router_a" "router_c \<noteq> router_a" "router_c \<noteq> router_b"
  by (auto simp: router_a_def router_b_def router_c_def router_at_def router0_def)

lemmas build_path_eval = build_path_result_def build_path_def
  UniformGenerator_init_def OrderedExitGenerator_init_def generator0_def NodeGenerator_rewind_def
  OrderedExitGenerator_rewind_def rewind_all_def rewind_def draw_path_def next_of_def it_next_def
  OrderedExitGenerator_next_def state_after_def random_choice_def count_up_def
  NodeRestrictionList_r_is_ok_def py_get_def py_remove_def mark_path_def mark_chosen_def
  UniqueRestriction_path_is_ok_def Let_def upt_conv_Cons

text \<open>
  C1. After the first StopIteration the handler of \<open>build_path\<close> takes the middle and
  the exit iterator from \<open>self.entry_gen\<close>. On the selector \<open>selector_retry\<close> the ordered
  exit generator finds no admissible router and stops; the retry then returns the path
  c, a, b drawn from the entry generator: its middle hop a fails the middle restrictions
  and its exit hop b fails the exit restrictions.
\<close>

theorem build_path_retry_draws_from_entry_gen:
  "build_path_result fuel5 count_up selector_retry 3 0 = Some (Inr [router_c, router_a, router_b])
   \<and> \<not> NodeRestrictionList_r_is_ok (rstr_list (mid_gen selector_retry)) router_a
   \<and> \<not> NodeRestrictionList_r_is_ok (rstr_list (exit_gen selector_retry)) router_b"
  by (simp add: build_path_eval selector_retry_def routers_abc_def fuel5_def nick_abc
      distinct_abc)

subsection \<open>No call raises \<open>NoRouters\<close>\<close>


















subsection \<open>An exhausted pool is retried for ever\<close>












section \<open>Properties of the ordered exit generator\<close>













section \<open>Properties of the bandwidth-weighted generator\<close>

lemma exit_bw_loop_sum:
  "exit_bw_loop rl rs acc =
     acc + sum_list (map bw (filter (NodeRestrictionList_r_is_ok rl) rs))"
  by (induction rs arbitrary: acc) auto













end
